theory Spec2Isabelle
  imports Complex_Main
begin

section \<open>Python values used by the backend\<close>

text \<open>
  A Python \<open>str\<close> is modelled as a \<^typ>\<open>string\<close> whose characters are the code points
  below 256. \<open>str.lower()\<close> maps \<open>A..Z\<close> and the Latin-1 capitals (\<open>0xC0..0xDE\<close> without
  the multiplication sign \<open>0xD7\<close>) 32 positions up; \<open>str.strip()\<close> removes, at both ends,
  the characters for which \<open>str.isspace()\<close> holds: \<open>0x09..0x0D\<close>, \<open>0x1C..0x20\<close>,
  \<open>0x85\<close> and \<open>0xA0\<close>. A float (a reading of \<open>time.time()\<close>) is a \<^typ>\<open>real\<close>:
  the model follows the comparisons and subtractions of the source and leaves rounding out.
\<close>

definition py_isspace :: "char \<Rightarrow> bool" where
  "py_isspace c =
     (let n = (of_char c :: nat)
      in (9 \<le> n \<and> n \<le> 13) \<or> (28 \<le> n \<and> n \<le> 32) \<or> n = 133 \<or> n = 160)"

definition lower_char :: "char \<Rightarrow> char" where
  "lower_char c =
     (let n = (of_char c :: nat)
      in if (65 \<le> n \<and> n \<le> 90) \<or> (192 \<le> n \<and> n \<le> 222 \<and> n \<noteq> 215)
         then char_of (n + 32) else c)"

definition lower :: "string \<Rightarrow> string" where
  "lower s = map lower_char s"

definition strip :: "string \<Rightarrow> string" where
  "strip s = rev (dropWhile py_isspace (rev (dropWhile py_isspace s)))"

text \<open>\<open>int(x)\<close> on a float truncates towards zero.\<close>

definition py_int :: "real \<Rightarrow> int" where
  "py_int x = (if 0 \<le> x then \<lfloor>x\<rfloor> else \<lceil>x\<rceil>)"

text \<open>
  The exceptions that reach the handlers: the two application errors of
  \<open>backend/exceptions.py\<close> raised by \<open>/summarize\<close>, and the built-in ones that the
  library calls can raise: \<open>KeyError\<close> and \<open>ValueError\<close> from \<open>tiktoken\<close>,
  \<open>openai.OpenAIError\<close> from the constructor of the client, and \<open>OtherException\<close> for
  any other exception.
\<close>

datatype error =
    ArticleNotFoundError string
  | SummarizationError string
  | KeyError
  | ValueError
  | OpenAIError
  | OtherException

text \<open>\<open>min(xs)\<close> raises \<open>ValueError\<close> on an empty list.\<close>

fun py_min :: "real list \<Rightarrow> error + real" where
  "py_min [] = Inl ValueError"
| "py_min (x # xs) = Inr (fold min xs x)"

text \<open>\<open>xs[:n]\<close>: a negative \<open>n\<close> counts from the end.\<close>

definition slice_to :: "'a list \<Rightarrow> int \<Rightarrow> 'a list" where
  "slice_to xs n = (if 0 \<le> n then take (nat n) xs else take (nat (int (length xs) + n)) xs)"

section \<open>Configuration (\<open>backend/config.py\<close>)\<close>

record settings =
  openai_api_key :: string
  max_summary_words :: int
  max_input_tokens :: int
  api_version :: string
  rate_limit_enabled :: bool
  rate_limit_per_minute :: int
  cache_enabled :: bool
  cache_ttl_seconds :: int

section \<open>The cache (\<open>backend/cache.py\<close>)\<close>

text \<open>
  \<open>SimpleCache\<close> holds two dictionaries from key to \<open>(value, timestamp)\<close> and the TTL.
  \<open>hashlib.md5(s.encode()).hexdigest()\<close> is a library function: it is the parameter
  \<open>md5\<close> of every operation. The reading of \<open>time.time()\<close> an operation makes is its
  parameter \<open>now\<close>. The methods \<open>get\<close>, \<open>set\<close>, \<open>clear\<close> and \<open>size\<close> carry the prefix
  \<open>cache_\<close>, the name of the module's instance.
\<close>

record simple_cache =
  cache :: "string \<rightharpoonup> string \<times> real"
  article_cache :: "string \<rightharpoonup> string \<times> real"
  ttl :: int

definition generate_key :: "(string \<Rightarrow> string) \<Rightarrow> string \<Rightarrow> string" where
  "generate_key md5 query = md5 (strip (lower query))"

definition cache_get ::
  "settings \<Rightarrow> (string \<Rightarrow> string) \<Rightarrow> simple_cache \<Rightarrow> string \<Rightarrow> real \<Rightarrow> string option \<times> simple_cache"
where
  "cache_get st md5 c query now =
     (if \<not> cache_enabled st then (None, c)
      else let key = generate_key md5 query in
        case cache c key of
          None \<Rightarrow> (None, c)
        | Some (val, timestamp) \<Rightarrow>
            if now - timestamp < real_of_int (ttl c) then (Some val, c)
            else (None, c\<lparr>cache := (cache c)(key := None)\<rparr>))"

definition cache_set ::
  "settings \<Rightarrow> (string \<Rightarrow> string) \<Rightarrow> simple_cache \<Rightarrow> string \<Rightarrow> string \<Rightarrow> real \<Rightarrow> simple_cache"
where
  "cache_set st md5 c query summary now =
     (if \<not> cache_enabled st then c
      else c\<lparr>cache := (cache c)(generate_key md5 query \<mapsto> (summary, now))\<rparr>)"

definition cache_get_article ::
  "settings \<Rightarrow> (string \<Rightarrow> string) \<Rightarrow> simple_cache \<Rightarrow> string \<Rightarrow> real \<Rightarrow> string option \<times> simple_cache"
where
  "cache_get_article st md5 c query now =
     (if \<not> cache_enabled st then (None, c)
      else let key = generate_key md5 query in
        case article_cache c key of
          None \<Rightarrow> (None, c)
        | Some (val, timestamp) \<Rightarrow>
            if now - timestamp < real_of_int (ttl c) then (Some val, c)
            else (None, c\<lparr>article_cache := (article_cache c)(key := None)\<rparr>))"

definition cache_set_article ::
  "settings \<Rightarrow> (string \<Rightarrow> string) \<Rightarrow> simple_cache \<Rightarrow> string \<Rightarrow> string \<Rightarrow> real \<Rightarrow> simple_cache"
where
  "cache_set_article st md5 c query article_text now =
     (if \<not> cache_enabled st then c
      else c\<lparr>article_cache := (article_cache c)(generate_key md5 query \<mapsto> (article_text, now))\<rparr>)"

definition cache_clear :: "simple_cache \<Rightarrow> simple_cache" where
  "cache_clear c = c\<lparr>cache := Map.empty, article_cache := Map.empty\<rparr>"

definition cache_size :: "simple_cache \<Rightarrow> nat" where
  "cache_size c = card (dom (cache c))"

text \<open>The two endpoints of \<open>backend/api.py\<close> that report the size.\<close>

record cache_stats_response =
  stats_enabled :: bool
  stats_size :: nat
  stats_ttl_seconds :: int

definition cache_stats :: "settings \<Rightarrow> simple_cache \<Rightarrow> cache_stats_response" where
  "cache_stats st c =
     \<lparr>stats_enabled = cache_enabled st, stats_size = cache_size c,
      stats_ttl_seconds = cache_ttl_seconds st\<rparr>"

record health_response =
  health_status :: string
  health_version :: string
  health_cache_enabled :: bool
  health_cache_size :: nat
  health_api_key_configured :: bool

definition health_check :: "settings \<Rightarrow> simple_cache \<Rightarrow> health_response" where
  "health_check st c =
     \<lparr>health_status = ''ok'', health_version = api_version st,
      health_cache_enabled = cache_enabled st, health_cache_size = cache_size c,
      health_api_key_configured = (openai_api_key st \<noteq> [])\<rparr>"

section \<open>The rate limiter (\<open>backend/rate_limiter.py\<close>)\<close>

text \<open>
  \<open>requests\<close> is a \<open>defaultdict(list)\<close>: reading a missing client gives the empty list.
  \<open>_clean_old_requests\<close> assigns the filtered list to the client's entry, which creates
  the entry when the client was unknown. \<open>is_allowed\<close> returns the limiter after the call
  and either the pair the source returns or the exception it raises (\<open>min\<close> of an empty
  window, reached only when the limit is not positive).
\<close>

record rate_limiter =
  requests_per_minute :: int
  requests :: "string \<rightharpoonup> real list"

definition window :: "rate_limiter \<Rightarrow> string \<Rightarrow> real list" where
  "window l client_id = (case requests l client_id of None \<Rightarrow> [] | Some w \<Rightarrow> w)"

definition clean_old_requests :: "rate_limiter \<Rightarrow> string \<Rightarrow> real \<Rightarrow> rate_limiter" where
  "clean_old_requests l client_id current_time =
     (let minute_ago = current_time - 60
      in l\<lparr>requests := (requests l)(client_id \<mapsto>
            filter (\<lambda>req_time. req_time > minute_ago) (window l client_id))\<rparr>)"

definition is_allowed ::
  "settings \<Rightarrow> rate_limiter \<Rightarrow> string \<Rightarrow> real \<Rightarrow> rate_limiter \<times> (error + bool \<times> int option)"
where
  "is_allowed st l client_id current_time =
     (if \<not> rate_limit_enabled st then (l, Inr (True, None))
      else let l1 = clean_old_requests l client_id current_time;
               w = window l1 client_id in
        if int (length w) \<ge> requests_per_minute l1 then
          (case py_min w of
             Inl e \<Rightarrow> (l1, Inl e)
           | Inr oldest_request \<Rightarrow>
               (l1, Inr (False, Some (py_int (60 - (current_time - oldest_request)) + 1))))
        else (l1\<lparr>requests := (requests l1)(client_id \<mapsto> w @ [current_time])\<rparr>,
              Inr (True, None)))"

text \<open>A run of admission checks by one client, at the given clock readings.\<close>

fun admit_all ::
  "settings \<Rightarrow> rate_limiter \<Rightarrow> string \<Rightarrow> real list \<Rightarrow> rate_limiter \<times> (error + bool \<times> int option) list"
where
  "admit_all st l client_id [] = (l, [])"
| "admit_all st l client_id (t # ts) =
     (let (l1, r) = is_allowed st l client_id t;
          (l2, rs) = admit_all st l1 client_id ts
      in (l2, r # rs))"

section \<open>Token budget (\<open>backend/summarizer.py\<close>)\<close>

text \<open>
  \<open>tiktoken\<close> is a library: an encoding is a pair of functions, \<open>encode\<close> (which can
  raise, for instance on text that spells a special token) and \<open>decode\<close>, and the two
  lookups \<open>tiktoken.encoding_for_model\<close> and \<open>tiktoken.get_encoding\<close> return an encoding or
  raise. \<open>_get_encoding\<close> falls back from the model to \<open>cl100k_base\<close> on \<open>KeyError\<close> or
  \<open>ValueError\<close>, from there to \<open>p50k_base\<close> on \<open>ValueError\<close>, and raises \<open>ValueError\<close>
  when that fails with \<open>ValueError\<close> too; any other exception propagates as it is.
\<close>

record encoding =
  encode :: "string \<Rightarrow> error + nat list"
  decode :: "nat list \<Rightarrow> string"

record tiktoken =
  encoding_for_model :: "string \<Rightarrow> error + encoding"
  tiktoken_get_encoding :: "string \<Rightarrow> error + encoding"

definition get_encoding :: "tiktoken \<Rightarrow> string \<Rightarrow> error + encoding" where
  "get_encoding tk model =
     (case encoding_for_model tk model of
        Inr e \<Rightarrow> Inr e
      | Inl err \<Rightarrow>
          if err = KeyError \<or> err = ValueError then
            (case tiktoken_get_encoding tk ''cl100k_base'' of
               Inr e \<Rightarrow> Inr e
             | Inl err2 \<Rightarrow>
                 if err2 = ValueError then
                   (case tiktoken_get_encoding tk ''p50k_base'' of
                      Inr e \<Rightarrow> Inr e
                    | Inl err3 \<Rightarrow> if err3 = ValueError then Inl ValueError else Inl err3)
                 else Inl err2)
          else Inl err)"


text \<open>\<open>truncate_to_tokens\<close> catches nothing.\<close>

definition truncate_to_tokens :: "tiktoken \<Rightarrow> string \<Rightarrow> int \<Rightarrow> string \<Rightarrow> error + string" where
  "truncate_to_tokens tk text max_tokens model =
     (case get_encoding tk model of
        Inl err \<Rightarrow> Inl err
      | Inr e \<Rightarrow>
          (case encode e text of
             Inl err \<Rightarrow> Inl err
           | Inr tokens \<Rightarrow>
               if int (length tokens) \<le> max_tokens then Inr text
               else Inr (decode e (slice_to tokens max_tokens))))"

section \<open>The summarize workflow (\<open>backend/summarizer.py\<close>, \<open>backend/api.py\<close>)\<close>

text \<open>
  The collaborators are outside the repository's logic, so one request sees them as a
  \<open>world\<close>: what each call site gets back if it is reached. \<open>fetch_on_hit\<close> is the call
  of \<open>fetch_wikipedia_article\<close> made after a cache hit, \<open>fetch_on_miss\<close> the one of the
  main path; every \<open>return\<close> of the scraper gives \<open>(None, None)\<close> (here \<open>None\<close>) or two
  strings. \<open>openai_client\<close> is what \<open>OpenAI(api_key=...)\<close> raises for a key, \<open>None\<close> when
  it returns a client. \<open>chat_completion\<close> is the message content of the chat completion
  for a prompt, \<open>None\<close> when anything inside the \<open>try\<close> of \<open>summarize_article\<close> raises.
  The \<open>now_\<close> fields are the readings of \<open>time.time()\<close> inside the five cache calls. The
  calls made to the fetcher and to the model are returned as a list of events, in order.
\<close>

record world =
  now_get :: real
  fetch_on_hit :: "string \<Rightarrow> (string \<times> string) option"
  now_get_article :: real
  now_set_article_on_hit :: real
  fetch_on_miss :: "string \<Rightarrow> (string \<times> string) option"
  now_set_article :: real
  openai_client :: "string \<Rightarrow> error option"
  chat_completion :: "string \<Rightarrow> string option"
  now_set :: real

datatype event = Fetch string | Generate string

text \<open>\<open>str(n)\<close> for an integer, used by the f-string of the prompt.\<close>

function str_nat :: "nat \<Rightarrow> string" where
  "str_nat n =
     (if n < 10 then [char_of (48 + n)] else str_nat (n div 10) @ [char_of (48 + n mod 10)])"
  by pat_completeness auto
termination
  by (relation "measure (\<lambda>n. n)") auto

definition py_str :: "int \<Rightarrow> string" where
  "py_str i = (if i < 0 then CHR ''-'' # str_nat (nat (- i)) else str_nat (nat i))"

definition summarize_prompt :: "int \<Rightarrow> string \<Rightarrow> string" where
  "summarize_prompt max_words truncated_text =
     ''Please provide a concise summary of the following Wikipedia article in approximately ''
     @ py_str max_words
     @ '' words or less. \<newline>Focus on the main points, key facts, and important information. Write in clear, readable prose.\<newline>\<newline>Article content:\<newline>''
     @ truncated_text
     @ ''\<newline>\<newline>Summary:''"

text \<open>
  \<open>summarize_article\<close>: the truncation and, after it, the construction of the client are
  outside the \<open>try\<close>, so their exceptions leave the function; a failure of the completion
  gives \<open>None\<close>; otherwise the stripped content.
\<close>

definition summarize_article ::
  "settings \<Rightarrow> tiktoken \<Rightarrow> world \<Rightarrow> string \<Rightarrow> int option \<Rightarrow> (error + string option) \<times> event list"
where
  "summarize_article st tk w article_text max_words_arg =
     (let max_words = (case max_words_arg of None \<Rightarrow> max_summary_words st | Some m \<Rightarrow> m) in
      case truncate_to_tokens tk article_text (max_input_tokens st) ''gpt-4o-mini'' of
        Inl err \<Rightarrow> (Inl err, [])
      | Inr truncated_text \<Rightarrow>
          (case openai_client w (openai_api_key st) of
             Some err \<Rightarrow> (Inl err, [])
           | None \<Rightarrow>
               (let prompt = summarize_prompt max_words truncated_text in
                case chat_completion w prompt of
                  None \<Rightarrow> (Inr None, [Generate prompt])
                | Some content \<Rightarrow> (Inr (Some (strip content)), [Generate prompt]))))"

record summarize_response =
  response_query :: string
  response_summary :: string
  response_source_url :: string

text \<open>Python truthiness of an optional string: \<open>None\<close> and \<open>""\<close> are false.\<close>

definition truthy :: "string option \<Rightarrow> bool" where
  "truthy x = (case x of None \<Rightarrow> False | Some s \<Rightarrow> s \<noteq> [])"

definition log_event ::
  "event \<Rightarrow> 'r \<times> simple_cache \<times> event list \<Rightarrow> 'r \<times> simple_cache \<times> event list" where
  "log_event ev res = (case res of (r, c, evs) \<Rightarrow> (r, c, ev # evs))"

text \<open>
  Lines 112 to 129 of \<open>summarize_wikipedia\<close>: fetch, store the article, summarize, store
  the summary.
\<close>

definition summarization_failed :: error where
  "summarization_failed =
     SummarizationError ''Failed to generate summary. Please check your OpenAI API key.''"

definition summarize_fetch_path ::
  "settings \<Rightarrow> tiktoken \<Rightarrow> (string \<Rightarrow> string) \<Rightarrow> world \<Rightarrow> simple_cache \<Rightarrow> string
     \<Rightarrow> (error + summarize_response) \<times> simple_cache \<times> event list"
where
  "summarize_fetch_path st tk md5 w c qry =
     log_event (Fetch qry)
       (case fetch_on_miss w qry of
          None \<Rightarrow> (Inl (ArticleNotFoundError qry), c, [])
        | Some (article_text, article_url) \<Rightarrow>
            if article_text = [] \<or> article_url = [] then (Inl (ArticleNotFoundError qry), c, [])
            else
              (let c1 = cache_set_article st md5 c qry article_text (now_set_article w) in
               case summarize_article st tk w article_text None of
                 (Inl err, evs) \<Rightarrow> (Inl err, c1, evs)
               | (Inr None, evs) \<Rightarrow> (Inl summarization_failed, c1, evs)
               | (Inr (Some smry), evs) \<Rightarrow>
                   if smry = [] then (Inl summarization_failed, c1, evs)
                   else
                     (Inr \<lparr>response_query = qry, response_summary = smry,
                           response_source_url = article_url\<rparr>,
                      cache_set st md5 c1 qry smry (now_set w), evs)))"

text \<open>The handler of \<open>POST /summarize\<close>, after validation and the rate-limit dependency.\<close>

definition summarize_wikipedia ::
  "settings \<Rightarrow> tiktoken \<Rightarrow> (string \<Rightarrow> string) \<Rightarrow> world \<Rightarrow> simple_cache \<Rightarrow> string
     \<Rightarrow> (error + summarize_response) \<times> simple_cache \<times> event list"
where
  "summarize_wikipedia st tk md5 w c request_query =
     (let qry = strip request_query;
          (cached_summary, c0) = cache_get st md5 c qry (now_get w)
      in case cached_summary of
           None \<Rightarrow> summarize_fetch_path st tk md5 w c0 qry
         | Some cached \<Rightarrow>
             if cached = [] then summarize_fetch_path st tk md5 w c0 qry
             else
               (case fetch_on_hit w qry of
                  None \<Rightarrow> log_event (Fetch qry) (summarize_fetch_path st tk md5 w c0 qry)
                | Some (article_text, article_url) \<Rightarrow>
                    if article_url = [] then
                      log_event (Fetch qry) (summarize_fetch_path st tk md5 w c0 qry)
                    else
                      (let (cached_article, c1) =
                             cache_get_article st md5 c0 qry (now_get_article w);
                           c2 = (if \<not> truthy cached_article
                                 then cache_set_article st md5 c1 qry article_text
                                        (now_set_article_on_hit w)
                                 else c1)
                       in (Inr \<lparr>response_query = qry, response_summary = cached,
                                 response_source_url = article_url\<rparr>, c2, [Fetch qry]))))"

section \<open>Test fixtures\<close>

definition settings0 :: settings where
  "settings0 =
     \<lparr>openai_api_key = ''sk-test'', max_summary_words = 300, max_input_tokens = 6000,
      api_version = ''1.0.0'', rate_limit_enabled = True, rate_limit_per_minute = 10,
      cache_enabled = True, cache_ttl_seconds = 3600\<rparr>"

definition cache0 :: simple_cache where
  "cache0 =
     \<lparr>cache = [''python'' \<mapsto> (''A language.'', 100)],
      article_cache = [''python'' \<mapsto> (''Python is a language.'', 100),
                       ''rust'' \<mapsto> (''Rust is a language.'', 200)],
      ttl = 3600\<rparr>"


definition settings_off :: settings where
  "settings_off = settings0\<lparr>rate_limit_enabled := False, cache_enabled := False\<rparr>"

definition limiter0 :: rate_limiter where
  "limiter0 = \<lparr>requests_per_minute = 10, requests = Map.empty\<rparr>"

definition limiter_full :: rate_limiter where
  "limiter_full = \<lparr>requests_per_minute = 10,
      requests = [''10.0.0.1'' \<mapsto> [0, 1, 2, 3, 4, 5, 6, 7, 8, 9]]\<rparr>"

definition clock11 :: "real list" where
  "clock11 = [0, 1, 2, 3, 4, 5, 6, 7, 8, 9, 21/2]"

text \<open>
  A tokenizer with one token per character, a \<open>tiktoken\<close> that knows it under every name,
  and one that knows no encoding at all.
\<close>

definition char_encoding :: encoding where
  "char_encoding =
     \<lparr>encode = (\<lambda>s. Inr (map (\<lambda>c. of_char c) s)), decode = (\<lambda>ts. map char_of ts)\<rparr>"

definition tiktoken_chars :: tiktoken where
  "tiktoken_chars =
     \<lparr>encoding_for_model = (\<lambda>m. Inr char_encoding),
      tiktoken_get_encoding = (\<lambda>n. Inr char_encoding)\<rparr>"


text \<open>
  A byte-level tokenizer in the manner of \<open>tiktoken\<close>'s, small enough to run by hand:
  \<open>encode\<close> takes the UTF-8 bytes of the text (one byte below \<open>0x80\<close>, two bytes
  \<open>0xC2/0xC3, 0x80..0xBF\<close> above) and merges every space followed by the lead byte
  \<open>0xC3\<close> into the token 256; \<open>decode\<close> concatenates the bytes of the tokens and decodes
  them as \<open>bytes.decode("utf-8", errors="replace")\<close> decodes the bytes this tokenizer
  produces: a lead byte without its continuation byte, and a continuation byte without
  its lead byte, give one replacement character each. The replacement character
  \<open>U+FFFD\<close> is not among the code points of the model; \<open>U+00BF\<close> stands for it.
\<close>

definition utf8_bytes :: "string \<Rightarrow> nat list" where
  "utf8_bytes s =
     concat (map (\<lambda>c. let n = (of_char c :: nat)
                       in if n < 128 then [n] else [192 + n div 64, 128 + n mod 64]) s)"

fun utf8_decode :: "nat list \<Rightarrow> string" where
  "utf8_decode [] = []"
| "utf8_decode [a] = (if a < 128 then [char_of a] else [CHR 0xBF])"
| "utf8_decode (a # b # bs) =
     (if a < 128 then char_of a # utf8_decode (b # bs)
      else if (a = 194 \<or> a = 195) \<and> 128 \<le> b \<and> b < 192
           then char_of ((a - 192) * 64 + (b - 128)) # utf8_decode bs
      else CHR 0xBF # utf8_decode (b # bs))"

fun merge_pairs :: "nat list \<Rightarrow> nat list" where
  "merge_pairs (a # b # bs) =
     (if a = 32 \<and> b = 195 then 256 # merge_pairs bs else a # merge_pairs (b # bs))"
| "merge_pairs bs = bs"

definition token_bytes :: "nat list \<Rightarrow> nat list" where
  "token_bytes ts = concat (map (\<lambda>t. if t = 256 then [32, 195] else [t]) ts)"

definition merge_encoding :: encoding where
  "merge_encoding =
     \<lparr>encode = (\<lambda>s. Inr (merge_pairs (utf8_bytes s))),
      decode = (\<lambda>ts. utf8_decode (token_bytes ts))\<rparr>"


definition world0 :: world where
  "world0 =
     \<lparr>now_get = 1000,
      fetch_on_hit = (\<lambda>q. Some (''Python is a language.'', ''https://en.wikipedia.org/wiki/Python'')),
      now_get_article = 1001, now_set_article_on_hit = 1002,
      fetch_on_miss = (\<lambda>q. Some (''Python is a language.'', ''https://en.wikipedia.org/wiki/Python'')),
      now_set_article = 1003,
      openai_client = (\<lambda>k. if k = [] then Some OpenAIError else None),
      chat_completion = (\<lambda>p. Some '' A language. ''),
      now_set = 1005\<rparr>"

definition world_no_url :: world where
  "world_no_url = world0\<lparr>fetch_on_hit := (\<lambda>q. None),
                          chat_completion := (\<lambda>p. Some ''Another summary.'')\<rparr>"

definition world_down :: world where
  "world_down = world0\<lparr>fetch_on_hit := (\<lambda>q. None), fetch_on_miss := (\<lambda>q. None)\<rparr>"

definition world_later :: world where
  "world_later = world0\<lparr>now_get := 2000,
      fetch_on_hit := (\<lambda>q. Some (''Python is a language.'',
                                 ''https://en.wikipedia.org/wiki/Python_(programming_language)''))\<rparr>"


definition cache_empty :: simple_cache where
  "cache_empty = \<lparr>cache = Map.empty, article_cache = Map.empty, ttl = 3600\<rparr>"

definition cache1 :: simple_cache where
  "cache1 =
     \<lparr>cache = [''python'' \<mapsto> (''A language.'', 1005)],
      article_cache = [''python'' \<mapsto> (''Python is a language.'', 1003)], ttl = 3600\<rparr>"

section \<open>Cache: expiry, keys and size\<close>

lemma lower_strip_Python: "strip (lower '' Python  '') = ''python''"
  by code_simp

lemma key_Python: "generate_key (\<lambda>s. s) '' Python  '' = ''python''"
  by (simp add: generate_key_def lower_strip_Python)

text \<open>
  Claim C1. With caching enabled, \<open>get\<close> returns a value exactly when the summary table
  has an entry for the key with \<open>now - timestamp < ttl\<close>, and that value is the stored
  one; an entry with \<open>now - timestamp \<ge> ttl\<close> (equality included) is removed from the
  table by the read and \<open>None\<close> is returned. \<open>get_article\<close> does the same on the article
  table.
\<close>

theorem cache_get_ttl:
  assumes "cache_enabled st"
  shows "(\<forall>v. fst (cache_get st md5 c q now) = Some v \<longleftrightarrow>
            (\<exists>ts. cache c (generate_key md5 q) = Some (v, ts) \<and> now - ts < real_of_int (ttl c)))
       \<and> (\<forall>v ts. cache c (generate_key md5 q) = Some (v, ts) \<and> now - ts \<ge> real_of_int (ttl c) \<longrightarrow>
            cache_get st md5 c q now =
              (None, c\<lparr>cache := (cache c)(generate_key md5 q := None)\<rparr>))
       \<and> (\<forall>v. fst (cache_get_article st md5 c q now) = Some v \<longleftrightarrow>
            (\<exists>ts. article_cache c (generate_key md5 q) = Some (v, ts)
                  \<and> now - ts < real_of_int (ttl c)))
       \<and> (\<forall>v ts. article_cache c (generate_key md5 q) = Some (v, ts)
                  \<and> now - ts \<ge> real_of_int (ttl c) \<longrightarrow>
            cache_get_article st md5 c q now =
              (None, c\<lparr>article_cache := (article_cache c)(generate_key md5 q := None)\<rparr>))"
proof (intro conjI allI impI)
  fix v
  show "fst (cache_get st md5 c q now) = Some v \<longleftrightarrow>
          (\<exists>ts. cache c (generate_key md5 q) = Some (v, ts) \<and> now - ts < real_of_int (ttl c))"
    using assms
    by (cases "cache c (generate_key md5 q)") (auto simp: cache_get_def split: if_splits)
next
  fix v ts
  assume "cache c (generate_key md5 q) = Some (v, ts) \<and> now - ts \<ge> real_of_int (ttl c)"
  then show "cache_get st md5 c q now =
      (None, c\<lparr>cache := (cache c)(generate_key md5 q := None)\<rparr>)"
    using assms by (simp add: cache_get_def)
next
  fix v
  show "fst (cache_get_article st md5 c q now) = Some v \<longleftrightarrow>
          (\<exists>ts. article_cache c (generate_key md5 q) = Some (v, ts)
                \<and> now - ts < real_of_int (ttl c))"
    using assms
    by (cases "article_cache c (generate_key md5 q)")
      (auto simp: cache_get_article_def split: if_splits)
next
  fix v ts
  assume "article_cache c (generate_key md5 q) = Some (v, ts)
            \<and> now - ts \<ge> real_of_int (ttl c)"
  then show "cache_get_article st md5 c q now =
      (None, c\<lparr>article_cache := (article_cache c)(generate_key md5 q := None)\<rparr>)"
    using assms by (simp add: cache_get_article_def)
qed

text \<open>
  At \<open>now = 3700\<close> the entries stored at 100 with a TTL of 3600 are exactly \<open>ttl\<close> old:
  both reads miss and delete; one second earlier both hit.
\<close>

theorem cache_get_ttl_witness:
  "cache_enabled settings0
   \<and> cache_get settings0 (\<lambda>s. s) cache0 '' Python  '' 3700
       = (None, cache0\<lparr>cache := (cache cache0)(''python'' := None)\<rparr>)
   \<and> cache_get_article settings0 (\<lambda>s. s) cache0 '' Python  '' 3700
       = (None, cache0\<lparr>article_cache := (article_cache cache0)(''python'' := None)\<rparr>)
   \<and> fst (cache_get settings0 (\<lambda>s. s) cache0 '' Python  '' 3699) = Some ''A language.''
   \<and> fst (cache_get_article settings0 (\<lambda>s. s) cache0 '' Python  '' 3699)
       = Some ''Python is a language.''"
proof -
  have en: "cache_enabled settings0"
    by (simp add: settings0_def)
  have old: "cache cache0 ''python'' = Some (''A language.'', 100) \<and> (3700::real) - 100 \<ge> real_of_int (ttl cache0)"
    "article_cache cache0 ''python'' = Some (''Python is a language.'', 100) \<and> (3700::real) - 100 \<ge> real_of_int (ttl cache0)"
    by (simp_all add: cache0_def)
  have fresh: "\<exists>ts. cache cache0 ''python'' = Some (''A language.'', ts) \<and> (3699::real) - ts < real_of_int (ttl cache0)"
    "\<exists>ts. article_cache cache0 ''python'' = Some (''Python is a language.'', ts) \<and> (3699::real) - ts < real_of_int (ttl cache0)"
    by (simp_all add: cache0_def)
  show ?thesis
    using en old fresh
      cache_get_ttl [OF en, of "\<lambda>s. s" cache0 "'' Python  ''" 3700]
      cache_get_ttl [OF en, of "\<lambda>s. s" cache0 "'' Python  ''" 3699]
    by (simp add: key_Python)
qed

text \<open>
  Claim C5. The key depends on the query only through \<open>query.lower().strip()\<close>: two queries
  that agree after lowercasing and trimming get the same key, and every cache operation
  treats them alike, on both tables.
\<close>

theorem generate_key_normalised:
  assumes "strip (lower q1) = strip (lower q2)"
  shows "generate_key md5 q1 = generate_key md5 q2
       \<and> cache_get st md5 c q1 now = cache_get st md5 c q2 now
       \<and> cache_get_article st md5 c q1 now = cache_get_article st md5 c q2 now
       \<and> cache_set st md5 c q1 v now = cache_set st md5 c q2 v now
       \<and> cache_set_article st md5 c q1 v now = cache_set_article st md5 c q2 v now"
proof -
  have "generate_key md5 q1 = generate_key md5 q2"
    using assms by (simp add: generate_key_def)
  then show ?thesis
    by (simp add: cache_get_def cache_get_article_def cache_set_def cache_set_article_def)
qed

text \<open>
  The two spellings of the specification, under every hash function.
\<close>

lemma quantum: "strip (lower ''Quantum Computing'') = strip (lower ''quantum computing  '')"
  by code_simp

theorem generate_key_normalised_witness:
  "\<forall>md5. generate_key md5 ''Quantum Computing'' = generate_key md5 ''quantum computing  ''"
  using generate_key_normalised [OF quantum] by blast

text \<open>
  Normalising is idempotent: a normalised query is its own normal form.
\<close>

lemma lower_char_idem: "lower_char (lower_char c) = lower_char c"
  by (auto simp: lower_char_def Let_def)

lemma isspace_lower: "py_isspace (lower_char c) = py_isspace c"
  by (auto simp: lower_char_def py_isspace_def Let_def)

lemma strip_idem: "strip (strip s) = strip s"
proof -
  define t where "t = dropWhile py_isspace s"
  define u where "u = dropWhile py_isspace (rev t)"
  have keep: "dropWhile py_isspace (rev u) = rev u"
  proof (cases "u = []")
    case True
    then show ?thesis by simp
  next
    case False
    then have "\<exists>x \<in> set (rev t). \<not> py_isspace x"
      unfolding u_def by simp
    then have "last u = last (rev t)"
      unfolding u_def by (metis dropWhile_last)
    moreover have "t \<noteq> []" using False by (auto simp: u_def)
    ultimately have "last u = hd t"
      by (simp add: last_rev)
    moreover have "\<not> py_isspace (hd t)"
      using \<open>t \<noteq> []\<close> unfolding t_def by (rule hd_dropWhile)
    ultimately have "\<not> py_isspace (hd (rev u))"
      using False by (simp add: hd_rev)
    then show ?thesis
      using False by (cases "rev u") simp_all
  qed
  have "strip (rev u) = rev (dropWhile py_isspace (rev (rev u)))"
    by (simp add: strip_def keep)
  also have "\<dots> = rev u"
    by (simp add: u_def)
  finally show ?thesis
    by (simp add: strip_def t_def u_def)
qed

lemma normalise_idem: "strip (lower (strip (lower q))) = strip (lower q)"
proof -
  have "dropWhile py_isspace (map lower_char s) = map lower_char (dropWhile py_isspace s)" for s
    by (induction s) (simp_all add: isspace_lower)
  then have "strip (lower s) = lower (strip s)" for s
    by (simp add: strip_def lower_def rev_map)
  then have "strip (lower (strip (lower q))) = lower (lower (strip (strip q)))"
    by simp
  also have "\<dots> = lower (strip q)"
    by (simp add: strip_idem lower_def lower_char_idem)
  also have "\<dots> = strip (lower q)"
    using \<open>\<And>s. strip (lower s) = lower (strip s)\<close> by simp
  finally show ?thesis .
qed

lemma generate_key_idem: "generate_key md5 (strip (lower q)) = generate_key md5 q"
  by (simp add: generate_key_def normalise_idem)

text \<open>
  Claim C9. \<open>size\<close> is the number of keys of the summary table. The article table does
  not enter it: replacing the article table, storing an article or reading one leaves the
  size as it was. \<open>/cache/stats\<close> and \<open>/health\<close> report that number, and \<open>clear\<close> empties
  both tables.
\<close>

theorem size_counts_summary_table:
  "cache_size c = card (dom (cache c))
   \<and> cache_size (c\<lparr>article_cache := a\<rparr>) = cache_size c
   \<and> cache_size (cache_set_article st md5 c q text now) = cache_size c
   \<and> cache_size (snd (cache_get_article st md5 c q now)) = cache_size c
   \<and> stats_size (cache_stats st c) = card (dom (cache c))
   \<and> health_cache_size (health_check st c) = card (dom (cache c))
   \<and> cache (cache_clear c) = Map.empty \<and> article_cache (cache_clear c) = Map.empty
   \<and> cache_size (cache_clear c) = 0"
  by (auto simp: cache_size_def cache_set_article_def cache_get_article_def cache_stats_def
        health_check_def cache_clear_def Let_def split: option.splits)

text \<open>
  One summary and two articles cached: the reported size is 1.
\<close>

theorem size_counts_summary_table_witness:
  "cache_size cache0 = 1 \<and> card (dom (article_cache cache0)) = 2
   \<and> stats_size (cache_stats settings0 cache0) = 1
   \<and> health_cache_size (health_check settings0 cache0) = 1
   \<and> cache_size (cache_clear cache0) = 0"
  using size_counts_summary_table [of cache0 "article_cache cache0" settings0 "\<lambda>s. s" "''x''" "''y''" 0]
  by (simp add: cache0_def)

section \<open>Rate limiter: admission\<close>

lemma py_min_Min: "w \<noteq> [] \<Longrightarrow> py_min w = Inr (Min (set w))"
  by (cases w) (simp, simp only: py_min.simps Min.set_eq_fold)

lemma sorted_Min_hd: "sorted xs \<Longrightarrow> xs \<noteq> [] \<Longrightarrow> Min (set xs) = hd (xs :: real list)"
  by (cases xs) (auto intro!: Min_eqI)

text \<open>
  What one enabled check does, in terms of the pruned window: rejected without recording
  the reading when the pruned window has reached the limit, admitted and recorded
  otherwise. On rejection the argument of \<open>int\<close> is positive, so truncation is the floor.
\<close>

lemma is_allowed_pruned:
  assumes "rate_limit_enabled st"
  shows "int (length (filter (\<lambda>t. t > now - 60) (window l client_id))) \<ge> requests_per_minute l \<Longrightarrow>
         filter (\<lambda>t. t > now - 60) (window l client_id) \<noteq> [] \<Longrightarrow>
         is_allowed st l client_id now =
          (l\<lparr>requests := (requests l)(client_id \<mapsto> filter (\<lambda>t. t > now - 60) (window l client_id))\<rparr>,
           Inr (False, Some (\<lfloor>60 - (now - Min (set (filter (\<lambda>t. t > now - 60) (window l client_id))))\<rfloor> + 1)))"
    and "int (length (filter (\<lambda>t. t > now - 60) (window l client_id))) < requests_per_minute l \<Longrightarrow>
         is_allowed st l client_id now =
          (l\<lparr>requests := (requests l)(client_id \<mapsto>
              filter (\<lambda>t. t > now - 60) (window l client_id) @ [now])\<rparr>, Inr (True, None))"
proof -
  define w where "w = filter (\<lambda>t. t > now - 60) (window l client_id)"
  have win: "window (clean_old_requests l client_id now) client_id = w"
    by (simp add: clean_old_requests_def window_def w_def)
  have lim: "requests_per_minute (clean_old_requests l client_id now) = requests_per_minute l"
    by (simp add: clean_old_requests_def)
  have cl: "clean_old_requests l client_id now = l\<lparr>requests := (requests l)(client_id \<mapsto> w)\<rparr>"
    by (simp add: clean_old_requests_def w_def)
  have rej: "is_allowed st l client_id now =
          (l\<lparr>requests := (requests l)(client_id \<mapsto> w)\<rparr>,
           Inr (False, Some (\<lfloor>60 - (now - Min (set w))\<rfloor> + 1)))"
    if full: "int (length w) \<ge> requests_per_minute l" and ne: "w \<noteq> []"
  proof -
    from ne have "Min (set w) \<in> set w" by simp
    then have "Min (set w) > now - 60" by (simp add: w_def)
    then have "py_int (60 - (now - Min (set w))) = \<lfloor>60 - (now - Min (set w))\<rfloor>"
      by (simp add: py_int_def)
    with full ne assms(1) show ?thesis
      by (simp add: is_allowed_def Let_def win lim py_min_Min) (simp add: cl)
  qed
  have adm: "is_allowed st l client_id now =
          (l\<lparr>requests := (requests l)(client_id \<mapsto> w @ [now])\<rparr>, Inr (True, None))"
    if "int (length w) < requests_per_minute l"
    using that assms(1) by (simp add: is_allowed_def Let_def win lim) (simp add: cl)
  show "int (length (filter (\<lambda>t. t > now - 60) (window l client_id))) \<ge> requests_per_minute l \<Longrightarrow>
         filter (\<lambda>t. t > now - 60) (window l client_id) \<noteq> [] \<Longrightarrow>
         is_allowed st l client_id now =
          (l\<lparr>requests := (requests l)(client_id \<mapsto> filter (\<lambda>t. t > now - 60) (window l client_id))\<rparr>,
           Inr (False, Some (\<lfloor>60 - (now - Min (set (filter (\<lambda>t. t > now - 60) (window l client_id))))\<rfloor> + 1)))"
    using rej unfolding w_def by blast
  show "int (length (filter (\<lambda>t. t > now - 60) (window l client_id))) < requests_per_minute l \<Longrightarrow>
         is_allowed st l client_id now =
          (l\<lparr>requests := (requests l)(client_id \<mapsto>
              filter (\<lambda>t. t > now - 60) (window l client_id) @ [now])\<rparr>, Inr (True, None))"
    using adm unfolding w_def by blast
qed

text \<open>
  Claim C4. With rate limiting disabled, \<open>is_allowed\<close> returns \<open>(True, None)\<close> and the
  limiter is the one it was given: no window is pruned, extended or created.
\<close>

theorem is_allowed_disabled:
  "\<not> rate_limit_enabled st \<Longrightarrow>
     is_allowed st l client_id now = (l, Inr (True, None))"
  by (simp add: is_allowed_def)

theorem is_allowed_disabled_witness:
  "\<not> rate_limit_enabled settings_off
   \<and> is_allowed settings_off limiter0 ''10.0.0.1'' 5 = (limiter0, Inr (True, None))
   \<and> requests (fst (is_allowed settings_off limiter0 ''10.0.0.1'' 5)) ''10.0.0.1'' = None"
proof -
  have off: "\<not> rate_limit_enabled settings_off"
    by (simp add: settings_off_def settings0_def)
  show ?thesis
    using off is_allowed_disabled [OF off, of limiter0 "''10.0.0.1''" 5]
    by (simp add: limiter0_def)
qed

text \<open>
  Claim C2, as amended. With rate limiting enabled and a limit of at least 1 (the
  configuration admits 1 to 100), a check keeps the readings newer than \<open>now - 60\<close>; if
  their number has reached the limit the request is rejected, \<open>now\<close> is not recorded and
  \<open>retry_after = floor(60 - (now - oldest)) + 1\<close>; otherwise \<open>now\<close> is appended and the
  request admitted with \<open>None\<close>. A window that holds exactly \<open>limit\<close> readings rejects.
\<close>

theorem is_allowed_enabled:
  assumes "rate_limit_enabled st" and "1 \<le> requests_per_minute l"
  shows "let w = filter (\<lambda>t. t > now - 60) (window l client_id) in
     (int (length w) \<ge> requests_per_minute l \<longrightarrow>
        is_allowed st l client_id now =
          (l\<lparr>requests := (requests l)(client_id \<mapsto> w)\<rparr>,
           Inr (False, Some (\<lfloor>60 - (now - Min (set w))\<rfloor> + 1))))
   \<and> (int (length w) < requests_per_minute l \<longrightarrow>
        is_allowed st l client_id now =
          (l\<lparr>requests := (requests l)(client_id \<mapsto> w @ [now])\<rparr>, Inr (True, None)))"
proof -
  define w where "w = filter (\<lambda>t. t > now - 60) (window l client_id)"
  have "w \<noteq> []" if "int (length w) \<ge> requests_per_minute l"
    using that assms(2) by auto
  then show ?thesis
    unfolding Let_def w_def [symmetric]
    using is_allowed_pruned [OF assms(1), where now = now and l = l and client_id = client_id, folded w_def] by blast
qed

theorem is_allowed_enabled_witness:
  "rate_limit_enabled settings0 \<and> 1 \<le> requests_per_minute limiter_full
   \<and> is_allowed settings0 limiter_full ''10.0.0.1'' (61/2) = (limiter_full, Inr (False, Some 30))
   \<and> is_allowed settings0 limiter_full ''10.0.0.1'' (121/2) =
       (limiter_full\<lparr>requests := [''10.0.0.1'' \<mapsto> [1, 2, 3, 4, 5, 6, 7, 8, 9, 121/2]]\<rparr>,
        Inr (True, None))"
proof -
  have en: "rate_limit_enabled settings0" and lim: "1 \<le> requests_per_minute limiter_full"
    by (simp_all add: settings0_def limiter_full_def)
  show ?thesis
    using en lim
      is_allowed_enabled [OF en lim, of "61/2" "''10.0.0.1''"]
      is_allowed_enabled [OF en lim, of "121/2" "''10.0.0.1''"]
    by (simp add: limiter_full_def window_def Let_def)
qed

text \<open>
  The claim's formula \<open>ceil(60 - (now - oldest)) + 1\<close> is not what the source computes:
  with ten readings 0..9 recorded and \<open>now = 30.5\<close>, \<open>int(29.5) + 1\<close> is 30 and
  \<open>ceil(29.5) + 1\<close> is 31.
\<close>

theorem retry_after_is_not_ceil_plus_one:
  "snd (is_allowed settings0 limiter_full ''10.0.0.1'' (61/2)) = Inr (False, Some 30)
   \<and> \<lceil>60 - ((61::real)/2 - 0)\<rceil> + 1 = (31::int)"
  by (simp add: is_allowed_def settings0_def limiter_full_def clean_old_requests_def window_def py_int_def Let_def)

lemma is_allowed_admits:
  assumes "rate_limit_enabled st"
    and "\<forall>a \<in> set (window l client_id). a > now - 60"
    and "int (length (window l client_id)) < requests_per_minute l"
  shows "is_allowed st l client_id now =
          (l\<lparr>requests := (requests l)(client_id \<mapsto> window l client_id @ [now])\<rparr>,
           Inr (True, None))"
proof -
  have "filter (\<lambda>t. t > now - 60) (window l client_id) = window l client_id"
    using assms(2) by (simp add: filter_id_conv)
  then show ?thesis
    using is_allowed_pruned(2) [OF assms(1), where now = now and l = l and client_id = client_id] assms(3) by simp
qed

lemma admit_all_fresh:
  assumes "rate_limit_enabled st"
    and "int (length (window l client_id) + length ts) \<le> requests_per_minute l"
    and "\<forall>a \<in> set (window l client_id) \<union> set ts. \<forall>b \<in> set ts. a > b - 60"
  shows "window (fst (admit_all st l client_id ts)) client_id = window l client_id @ ts
       \<and> requests_per_minute (fst (admit_all st l client_id ts)) = requests_per_minute l
       \<and> snd (admit_all st l client_id ts) = replicate (length ts) (Inr (True, None))"
  using assms(2,3)
proof (induction ts arbitrary: l)
  case Nil
  then show ?case by simp
next
  case (Cons t ts)
  let ?l1 = "l\<lparr>requests := (requests l)(client_id \<mapsto> window l client_id @ [t])\<rparr>"
  have step: "is_allowed st l client_id t = (?l1, Inr (True, None))"
    using Cons.prems assms(1) by (intro is_allowed_admits) auto
  have w1: "window ?l1 client_id = window l client_id @ [t]"
    by (simp add: window_def)
  have "window (fst (admit_all st ?l1 client_id ts)) client_id = window ?l1 client_id @ ts
       \<and> requests_per_minute (fst (admit_all st ?l1 client_id ts)) = requests_per_minute ?l1
       \<and> snd (admit_all st ?l1 client_id ts) = replicate (length ts) (Inr (True, None))"
    using Cons.prems by (intro Cons.IH) (auto simp: w1)
  then show ?case
    by (simp add: step w1 case_prod_beta)
qed

text \<open>A check by one client leaves the windows of the others alone.\<close>

lemma is_allowed_other_client:
  assumes "other \<noteq> client_id"
  shows "window (fst (is_allowed st l other now)) client_id = window l client_id"
    and "requests_per_minute (fst (is_allowed st l other now)) = requests_per_minute l"
  using assms
  by (simp_all add: is_allowed_def clean_old_requests_def window_def Let_def
           split: sum.splits)

lemma admit_all_append:
  "admit_all st l client_id (xs @ ys) =
     (let (l1, rs) = admit_all st l client_id xs;
          (l2, rs') = admit_all st l1 client_id ys
      in (l2, rs @ rs'))"
  by (induction xs arbitrary: l) (simp_all add: case_prod_beta)


text \<open>
  Claim C3. Limit 10, rate limiting enabled, a client with no reading in the 60 seconds
  before the first check, eleven checks at non-decreasing clock readings less than 60
  seconds apart: the first ten are admitted, the eleventh is rejected with
  \<open>0 < retry_after \<le> 61\<close>, and a check made \<open>retry_after\<close> seconds or more after the
  rejected one is admitted.
\<close>

theorem eleventh_request_rejected:
  assumes "rate_limit_enabled st" and "requests_per_minute l = 10"
    and "\<forall>a \<in> set (window l client_id). a \<le> hd ts - 60"
    and "length ts = 11" and "sorted ts" and "last ts - hd ts < 60"
  shows "\<exists>l' ra. admit_all st l client_id ts =
            (l', replicate 10 (Inr (True, None)) @ [Inr (False, Some ra)])
          \<and> 0 < ra \<and> ra \<le> 61
          \<and> (\<forall>t'. t' \<ge> last ts + real_of_int ra \<longrightarrow>
                snd (is_allowed st l' client_id t') = Inr (True, None))"
proof -
  define us where "us = butlast ts"
  define now where "now = last ts"
  have ts: "ts = us @ [now]" and len: "length us = 10"
    using assms(4) by (auto simp: us_def now_def length_0_conv [symmetric] simp del: length_0_conv)
  have ne: "us \<noteq> []" using len by auto
  define t1 where "t1 = hd us"
  define mid where "mid = tl us"
  have us: "us = t1 # mid" and len_mid: "length mid = 9"
    using ne len by (simp_all add: t1_def mid_def)
  have srt: "sorted us" and le_now: "\<forall>a \<in> set us. a \<le> now"
    using assms(5) by (auto simp: ts sorted_append)
  have hd_ts: "hd ts = t1" by (simp add: ts us)
  have lo: "\<forall>a \<in> set us. t1 \<le> a"
    using srt by (auto simp: us)
  have close: "\<forall>a \<in> set us. a > now - 60"
    using lo assms(6) by (fastforce simp: hd_ts now_def)
  \<comment> \<open>the first check prunes what the client had and records \<open>t1\<close>\<close>
  define l0 where "l0 = l\<lparr>requests := (requests l)(client_id \<mapsto> [t1])\<rparr>"
  have stale: "filter (\<lambda>t. t > t1 - 60) (window l client_id) = []"
    using assms(3) by (auto simp: hd_ts filter_empty_conv)
  have first: "is_allowed st l client_id t1 = (l0, Inr (True, None))"
    using is_allowed_pruned(2) [OF assms(1), where now = t1 and l = l and client_id = client_id] assms(2)
    by (simp add: stale l0_def)
  \<comment> \<open>the next nine find every earlier reading inside their window\<close>
  define l1 where "l1 = fst (admit_all st l0 client_id mid)"
  have w0: "window l0 client_id = [t1]" and lim0: "requests_per_minute l0 = 10"
    using assms(2) by (simp_all add: l0_def window_def)
  have "\<forall>a \<in> set (window l0 client_id) \<union> set mid. \<forall>b \<in> set mid. a > b - 60"
    using close le_now by (fastforce simp: w0 us)
  then have pre: "window l1 client_id = us \<and> requests_per_minute l1 = 10
       \<and> snd (admit_all st l0 client_id mid) = replicate 9 (Inr (True, None))"
    using admit_all_fresh [of st l0 client_id mid] assms(1) len_mid
    unfolding l1_def by (simp add: w0 lim0 us)
  have ten: "admit_all st l client_id us = (l1, replicate 10 (Inr (True, None)))"
    using pre first by (simp add: us l1_def case_prod_beta eval_nat_numeral)
  \<comment> \<open>the eleventh is rejected\<close>
  define ra where "ra = \<lfloor>60 - (now - Min (set us))\<rfloor> + 1"
  define l' where "l' = l1\<lparr>requests := (requests l1)(client_id \<mapsto> us)\<rparr>"
  have filt: "filter (\<lambda>t. t > now - 60) us = us"
    using close by (simp add: filter_id_conv)
  have rej: "is_allowed st l1 client_id now = (l', Inr (False, Some ra))"
    using is_allowed_pruned(1) [OF assms(1), where now = now and l = l1 and client_id = client_id] pre len ne
    by (simp add: filt ra_def l'_def)
  have run: "admit_all st l client_id ts =
      (l', replicate 10 (Inr (True, None)) @ [Inr (False, Some ra)])"
    using ten rej by (simp add: ts admit_all_append)
  have mn: "Min (set us) = t1" unfolding t1_def using srt ne by (rule sorted_Min_hd)
  have x_pos: "0 < 60 - (now - t1)" and x_le: "60 - (now - t1) \<le> 60"
    using close le_now by (fastforce simp: us)+
  have ra_pos: "0 < ra" using x_pos unfolding ra_def mn by linarith
  have ra_le: "ra \<le> 61" using x_le unfolding ra_def mn by linarith
  \<comment> \<open>once \<open>ra\<close> seconds have passed the oldest reading has left the window\<close>
  have later: "snd (is_allowed st l' client_id t') = Inr (True, None)"
    if t': "t' \<ge> last ts + real_of_int ra" for t'
  proof -
    have "real_of_int ra > 60 - (now - t1)" unfolding ra_def mn by linarith
    with t' have "t1 \<le> t' - 60" by (simp add: now_def [symmetric] ts)
    then have "filter (\<lambda>t. t > t' - 60) us = filter (\<lambda>t. t > t' - 60) mid"
      by (simp add: us)
    moreover have "length (filter (\<lambda>t. t > t' - 60) mid) \<le> length mid"
      by (rule length_filter_le)
    ultimately have "length (filter (\<lambda>t. t > t' - 60) us) \<le> 9"
      using len_mid by simp
    then have short: "int (length (filter (\<lambda>t. t > t' - 60) (window l' client_id)))
        < requests_per_minute l'"
      using pre by (simp add: l'_def window_def)
    from is_allowed_pruned(2) [OF assms(1) short]
    show ?thesis by simp
  qed
  show ?thesis using run ra_pos ra_le later by blast
qed

theorem eleventh_request_rejected_witness:
  "sorted clock11 \<and> last clock11 - hd clock11 < 60
   \<and> snd (admit_all settings0 limiter0 ''10.0.0.1'' clock11) =
       replicate 10 (Inr (True, None)) @ [Inr (False, Some 50)]
   \<and> snd (is_allowed settings0 (fst (admit_all settings0 limiter0 ''10.0.0.1'' clock11))
            ''10.0.0.1'' (121/2)) = Inr (True, None)"
proof -
  have en: "rate_limit_enabled settings0" and lim: "requests_per_minute limiter0 = 10"
    and fresh: "\<forall>a \<in> set (window limiter0 ''10.0.0.1''). a \<le> hd clock11 - 60"
    and len: "length clock11 = 11" and srt: "sorted clock11"
    and span: "last clock11 - hd clock11 < 60"
    by (simp_all add: settings0_def limiter0_def window_def clock11_def)
  from eleventh_request_rejected [OF en lim fresh len srt span]
  obtain l' ra where
    run: "admit_all settings0 limiter0 ''10.0.0.1'' clock11 =
            (l', replicate 10 (Inr (True, None)) @ [Inr (False, Some ra)])"
    and later: "\<forall>t'. t' \<ge> last clock11 + real_of_int ra \<longrightarrow>
                snd (is_allowed settings0 l' ''10.0.0.1'' t') = Inr (True, None)"
    by blast
  have ev: "snd (admit_all settings0 limiter0 ''10.0.0.1'' clock11) =
       replicate 10 (Inr (True, None)) @ [Inr (False, Some 50)]"
    by (simp add: settings0_def limiter0_def clock11_def is_allowed_def
          clean_old_requests_def window_def py_int_def Let_def eval_nat_numeral)
  from run ev have "ra = 50" by simp
  with later have "snd (is_allowed settings0 l' ''10.0.0.1'' (121/2)) = Inr (True, None)"
    by (simp add: clock11_def)
  with run ev srt span show ?thesis by simp
qed

section \<open>Token budget: truncation\<close>

lemma get_encoding_chars: "get_encoding tiktoken_chars model = Inr char_encoding"
  by (simp add: get_encoding_def tiktoken_chars_def)


lemma decode_encode_chars:
  "encode char_encoding s = Inr (map of_char s)"
  "decode char_encoding (slice_to (map of_char s) n) = slice_to s n"
  by (simp_all add: char_encoding_def slice_to_def take_map comp_def)

lemma truncate_chars:
  "truncate_to_tokens tiktoken_chars text N model =
     (if int (length text) \<le> N then Inr text else Inr (slice_to text N))"
  by (simp add: truncate_to_tokens_def get_encoding_chars decode_encode_chars)

lemma length_slice_to: "0 \<le> n \<Longrightarrow> int (length (slice_to xs n)) \<le> n"
  by (simp add: slice_to_def)







text \<open>
  The byte-level tokenizer is lossless on whole texts, as a tokenizer should be, and loses
  a character only when a cut separates its bytes.
\<close>

lemma token_bytes_merge: "\<forall>b \<in> set bs. b < 256 \<Longrightarrow> token_bytes (merge_pairs bs) = bs"
  by (induction bs rule: merge_pairs.induct) (auto simp: token_bytes_def)

lemma div_64_small: "n < 256 \<Longrightarrow> n div 64 < (4::nat)"
  by (rule less_mult_imp_div_less) simp

lemma utf8_bytes_small: "\<forall>b \<in> set (utf8_bytes s). b < 256"
proof -
  have "192 + n div 64 < 256 \<and> 128 + n mod 64 < 256" if "n < 256" for n :: nat
    using div_64_small [OF that] by simp
  moreover have "(of_char c :: nat) < 256" for c
    by simp
  ultimately show ?thesis
    by (auto simp: utf8_bytes_def Let_def)
qed

lemma utf8_decode_ascii:
  "a < 128 \<Longrightarrow> utf8_decode (a # bs) = char_of a # utf8_decode bs"
  by (cases bs) simp_all

lemma utf8_decode_pair:
  "a = 194 \<or> a = 195 \<Longrightarrow> 128 \<le> b \<Longrightarrow> b < 192 \<Longrightarrow>
   utf8_decode (a # b # bs) = char_of ((a - 192) * 64 + (b - 128)) # utf8_decode bs"
  by auto

lemma utf8_roundtrip: "utf8_decode (utf8_bytes s) = s"
proof (induction s)
  case Nil
  then show ?case by (simp add: utf8_bytes_def)
next
  case (Cons c s)
  define n where "n = (of_char c :: nat)"
  have lt: "n < 256" unfolding n_def by simp
  have c: "char_of n = c" unfolding n_def by simp
  have tail: "utf8_bytes (c # s) =
      (if n < 128 then [n] else [192 + n div 64, 128 + n mod 64]) @ utf8_bytes s"
    by (simp add: utf8_bytes_def n_def Let_def)
  show ?case
  proof (cases "n < 128")
    case True
    then show ?thesis using Cons.IH c by (simp add: tail utf8_decode_ascii)
  next
    case False
    then have "2 \<le> n div 64" using div_le_mono [of 128 n 64] by simp
    with div_64_small [OF lt] have "192 + n div 64 = 194 \<or> 192 + n div 64 = 195"
      by linarith
    moreover have "128 \<le> 128 + n mod 64" "128 + n mod 64 < 192" by simp_all
    moreover have "(192 + n div 64 - 192) * 64 + (128 + n mod 64 - 128) = n" by simp
    ultimately have "utf8_decode ((192 + n div 64) # (128 + n mod 64) # utf8_bytes s)
        = char_of n # utf8_decode (utf8_bytes s)"
      using utf8_decode_pair [of "192 + n div 64" "128 + n mod 64" "utf8_bytes s"] by simp
    then show ?thesis using False Cons.IH c by (simp add: tail)
  qed
qed

lemma merge_encoding_lossless:
  "\<exists>ts. encode merge_encoding s = Inr ts \<and> decode merge_encoding ts = s"
  by (simp add: merge_encoding_def token_bytes_merge utf8_bytes_small utf8_roundtrip)




text \<open>
  The amended statement asks for \<open>N \<ge> 0\<close>, which is what the callers pass (the
  configured input budget, and that budget less 500): with a negative budget
  \<open>tokens[:max_tokens]\<close> drops tokens from the end, and every further truncation drops
  more.
\<close>

lemma truncate_negative_budget_not_idempotent:
  "truncate_to_tokens tiktoken_chars ''abc'' (- 1) ''gpt-4o-mini'' = Inr ''ab''
   \<and> truncate_to_tokens tiktoken_chars ''ab'' (- 1) ''gpt-4o-mini'' = Inr ''a''"
  by (simp add: truncate_chars slice_to_def)

section \<open>The summarize workflow: miss and hit\<close>

lemma cache_get_hit:
  assumes "fst (cache_get st md5 c q now) = Some s"
  shows "cache_get st md5 c q now = (Some s, c)" and "cache_enabled st"
    and "\<exists>ts. cache c (generate_key md5 q) = Some (s, ts) \<and> now - ts < real_of_int (ttl c)"
  using assms
  by (auto simp: cache_get_def Let_def split: if_splits option.splits)

lemma cache_get_miss_state:
  "snd (cache_get st md5 c q now) = c
   \<or> snd (cache_get st md5 c q now) = c\<lparr>cache := (cache c)(generate_key md5 q := None)\<rparr>"
  by (auto simp: cache_get_def Let_def split: if_splits option.splits)

lemma fetch_path_not_found:
  assumes "fetch_on_miss w q = None
           \<or> (\<exists>t u. fetch_on_miss w q = Some (t, u) \<and> (t = [] \<or> u = []))"
  shows "summarize_fetch_path st tk md5 w c q = (Inl (ArticleNotFoundError q), c, [Fetch q])"
  using assms by (auto simp: summarize_fetch_path_def log_event_def)


lemma fetch_path_truncate_fails:
  assumes "fetch_on_miss w q = Some (text, url)" "text \<noteq> []" "url \<noteq> []"
    and "truncate_to_tokens tk text (max_input_tokens st) ''gpt-4o-mini'' = Inl err"
  shows "summarize_fetch_path st tk md5 w c q =
     (Inl err, cache_set_article st md5 c q text (now_set_article w), [Fetch q])"
  using assms
  by (simp add: summarize_fetch_path_def summarize_article_def log_event_def Let_def)

lemma fetch_path_client_fails:
  assumes "fetch_on_miss w q = Some (text, url)" "text \<noteq> []" "url \<noteq> []"
    and "truncate_to_tokens tk text (max_input_tokens st) ''gpt-4o-mini'' = Inr truncated"
    and "openai_client w (openai_api_key st) = Some err"
  shows "summarize_fetch_path st tk md5 w c q =
     (Inl err, cache_set_article st md5 c q text (now_set_article w), [Fetch q])"
  using assms
  by (simp add: summarize_fetch_path_def summarize_article_def log_event_def Let_def)

lemma summarize_miss:
  assumes "\<not> truthy (fst (cache_get st md5 c (strip rq) (now_get w)))"
  shows "summarize_wikipedia st tk md5 w c rq =
     summarize_fetch_path st tk md5 w (snd (cache_get st md5 c (strip rq) (now_get w))) (strip rq)"
  using assms
  by (auto simp: summarize_wikipedia_def Let_def truthy_def case_prod_beta split: option.splits)

lemma summarize_hit_url:
  assumes "fst (cache_get st md5 c (strip rq) (now_get w)) = Some s" "s \<noteq> []"
    and "fetch_on_hit w (strip rq) = Some (text, url)" "url \<noteq> []"
  shows "summarize_wikipedia st tk md5 w c rq =
     (Inr \<lparr>response_query = strip rq, response_summary = s, response_source_url = url\<rparr>,
      (if \<not> truthy (fst (cache_get_article st md5 c (strip rq) (now_get_article w)))
       then cache_set_article st md5 (snd (cache_get_article st md5 c (strip rq) (now_get_article w)))
              (strip rq) text (now_set_article_on_hit w)
       else snd (cache_get_article st md5 c (strip rq) (now_get_article w))),
      [Fetch (strip rq)])"
  using assms cache_get_hit(1) [OF assms(1)]
  by (simp add: summarize_wikipedia_def Let_def case_prod_beta)

lemma summarize_hit_no_url:
  assumes "fst (cache_get st md5 c (strip rq) (now_get w)) = Some s" "s \<noteq> []"
    and "fetch_on_hit w (strip rq) = None \<or> (\<exists>t. fetch_on_hit w (strip rq) = Some (t, []))"
  shows "summarize_wikipedia st tk md5 w c rq =
     log_event (Fetch (strip rq)) (summarize_fetch_path st tk md5 w c (strip rq))"
  using assms cache_get_hit(1) [OF assms(1)]
  by (auto simp: summarize_wikipedia_def Let_def case_prod_beta)

lemma fetch_path_events:
  "\<exists>r c' evs. summarize_fetch_path st tk md5 w c q = (r, c', Fetch q # evs)"
  by (cases "case fetch_on_miss w q of
          None \<Rightarrow> (Inl (ArticleNotFoundError q), c, [])
        | Some (article_text, article_url) \<Rightarrow>
            if article_text = [] \<or> article_url = [] then (Inl (ArticleNotFoundError q), c, [])
            else
              (let c1 = cache_set_article st md5 c q article_text (now_set_article w) in
               case summarize_article st tk w article_text None of
                 (Inl err, evs) \<Rightarrow> (Inl err, c1, evs)
               | (Inr None, evs) \<Rightarrow> (Inl summarization_failed, c1, evs)
               | (Inr (Some smry), evs) \<Rightarrow>
                   if smry = [] then (Inl summarization_failed, c1, evs)
                   else
                     (Inr \<lparr>response_query = q, response_summary = smry,
                           response_source_url = article_url\<rparr>,
                      cache_set st md5 c1 q smry (now_set w), evs))")
     (simp add: summarize_fetch_path_def log_event_def)

lemma fetch_path_success:
  assumes "cache_enabled st"
    and "summarize_fetch_path st tk md5 w c q = (Inr r, c', evs)"
  shows "cache c' (generate_key md5 q) = Some (response_summary r, now_set w)"
    and "response_summary r \<noteq> []"
  using assms
  by (auto simp: summarize_fetch_path_def log_event_def Let_def cache_set_def
           split: option.splits sum.splits prod.splits if_splits)

lemma article_ops_keep_summaries:
  "cache (snd (cache_get_article st md5 c q now)) = cache c"
  "cache (cache_set_article st md5 c q text now) = cache c"
  by (auto simp: cache_get_article_def cache_set_article_def Let_def split: option.splits)

lemma summary_cached_after_success:
  assumes en: "cache_enabled st"
    and run: "summarize_wikipedia st tk md5 w c rq = (Inr r, c', evs)"
  shows "\<exists>ts. cache c' (generate_key md5 (strip rq)) = Some (response_summary r, ts)
              \<and> response_summary r \<noteq> []"
proof (cases "truthy (fst (cache_get st md5 c (strip rq) (now_get w)))")
  case False
  from summarize_miss [OF False, of tk] run
  have "summarize_fetch_path st tk md5 w (snd (cache_get st md5 c (strip rq) (now_get w)))
          (strip rq) = (Inr r, c', evs)"
    by simp
  from fetch_path_success [OF en this] show ?thesis by blast
next
  case True
  then obtain s where hit: "fst (cache_get st md5 c (strip rq) (now_get w)) = Some s" "s \<noteq> []"
    by (auto simp: truthy_def split: option.splits)
  show ?thesis
  proof (cases "fetch_on_hit w (strip rq) = None
                \<or> (\<exists>t. fetch_on_hit w (strip rq) = Some (t, []))")
    case True
    from summarize_hit_no_url [OF hit True, of tk] run
    obtain evs' where
      "summarize_fetch_path st tk md5 w c (strip rq) = (Inr r, c', evs')"
      by (cases "summarize_fetch_path st tk md5 w c (strip rq)") (auto simp: log_event_def)
    from fetch_path_success [OF en this] show ?thesis by blast
  next
    case False
    then obtain atext url where url: "fetch_on_hit w (strip rq) = Some (atext, url)" "url \<noteq> []"
      by (cases "fetch_on_hit w (strip rq)") auto
    from summarize_hit_url [OF hit url, of tk] run
    have r: "response_summary r = s" and c': "cache c' = cache c"
      by (auto simp: article_ops_keep_summaries split: if_splits)
    from cache_get_hit(3) [OF hit(1)] r c' hit(2) show ?thesis by auto
  qed
qed

lemma strip_facts:
  "strip ''Python '' = ''Python''"
  "strip (lower ''Python'') = ''python''"
  "strip '' A language. '' = ''A language.''"
  "strip ''Another summary.'' = ''Another summary.''"
  by code_simp+

lemma key_Python': "generate_key (\<lambda>s. s) ''Python'' = ''python''"
  by (simp add: generate_key_def strip_facts)


lemma world0_facts:
  "fetch_on_miss world0 q
     = Some (''Python is a language.'', ''https://en.wikipedia.org/wiki/Python'')"
  "fetch_on_hit world0 q
     = Some (''Python is a language.'', ''https://en.wikipedia.org/wiki/Python'')"
  "chat_completion world0 p = Some '' A language. ''"
  "openai_client world0 k = (if k = [] then Some OpenAIError else None)"
  by (simp_all add: world0_def)

lemma truncate_article0:
  "truncate_to_tokens tiktoken_chars ''Python is a language.'' (max_input_tokens settings0)
     ''gpt-4o-mini'' = Inr ''Python is a language.''"
  by (simp add: truncate_chars settings0_def)

lemma settings0_facts:
  "cache_enabled settings0" "max_input_tokens settings0 = 6000"
  "max_summary_words settings0 = 300" "openai_api_key settings0 = ''sk-test''"
  by (simp_all add: settings0_def)






text \<open>
  The handler stores a summary only after \<open>if not summary\<close> let it through, so a summary
  table without empty summaries keeps none: on such a table every hit of \<open>get\<close> is a hit
  for the handler's \<open>if cached_summary\<close>.
\<close>

lemma fetch_path_keeps_summaries_nonempty:
  assumes "\<And>k t. cache c k \<noteq> Some ([], t)"
  shows "cache (fst (snd (summarize_fetch_path st tk md5 w c q))) k \<noteq> Some ([], t)"
  using assms
  by (auto simp: summarize_fetch_path_def log_event_def Let_def cache_set_def
        cache_set_article_def split: option.splits sum.splits prod.splits if_splits)

lemma summarize_keeps_summaries_nonempty:
  assumes "\<And>k t. cache c k \<noteq> Some ([], t)"
  shows "cache (fst (snd (summarize_wikipedia st tk md5 w c rq))) k \<noteq> Some ([], t)"
proof -
  have c0: "cache (snd (cache_get st md5 c (strip rq) (now_get w))) k \<noteq> Some ([], t)" for k t
    using assms [of k t] cache_get_miss_state [of st md5 c "strip rq" "now_get w"]
    by (auto split: if_splits)
  show ?thesis
  proof (cases "truthy (fst (cache_get st md5 c (strip rq) (now_get w)))")
    case False
    then show ?thesis
      using fetch_path_keeps_summaries_nonempty [OF c0] by (simp add: summarize_miss)
  next
    case True
    then obtain s where hit: "fst (cache_get st md5 c (strip rq) (now_get w)) = Some s" "s \<noteq> []"
      by (auto simp: truthy_def split: option.splits)
    show ?thesis
    proof (cases "fetch_on_hit w (strip rq) = None
                  \<or> (\<exists>t. fetch_on_hit w (strip rq) = Some (t, []))")
      case True
      have "fst (snd (log_event ev res)) = fst (snd res)"
        for ev and res :: "(error + summarize_response) \<times> simple_cache \<times> event list"
        by (cases res) (simp add: log_event_def)
      then show ?thesis
        using fetch_path_keeps_summaries_nonempty [OF assms]
        by (simp add: summarize_hit_no_url [OF hit True])
    next
      case False
      then obtain atext url where
        url: "fetch_on_hit w (strip rq) = Some (atext, url)" "url \<noteq> []"
        by (cases "fetch_on_hit w (strip rq)") auto
      show ?thesis
        using assms by (simp add: summarize_hit_url [OF hit url] article_ops_keep_summaries)
    qed
  qed
qed

lemma article_cache_after_hit:
  assumes "cache_enabled st"
  shows "(if truthy (fst (cache_get_article st md5 c q now))
          then snd (cache_get_article st md5 c q now) = c
          else article_cache (cache_set_article st md5 (snd (cache_get_article st md5 c q now))
                 q atext now') = (article_cache c)(generate_key md5 q \<mapsto> (atext, now')))"
  using assms
  by (auto simp: cache_get_article_def cache_set_article_def truthy_def Let_def
           split: option.splits)

text \<open>
  Claim C8, as amended. On a hit of the summary cache for which the fetch resolves a URL,
  the request makes that one fetch and no call to the model, answers with the cached
  summary and the URL of the fetch, leaves the summary table alone, and stores the fetched
  text in the article table exactly when \<open>get_article\<close> found nothing usable there.
  Hence, with caching enabled, after a request that succeeded, a second request for the
  same query made before the stored summary expires, and for which the fetch resolves a
  URL, returns the same summary and does not call the model.
\<close>

theorem summarize_cache_hit:
  "let q = strip rq; key = generate_key md5 q in
     (\<forall>s atext url.
        fst (cache_get st md5 c q (now_get w)) = Some s \<and> s \<noteq> []
        \<and> fetch_on_hit w q = Some (atext, url) \<and> url \<noteq> [] \<longrightarrow>
        (\<exists>c'. summarize_wikipedia st tk md5 w c rq =
                (Inr \<lparr>response_query = q, response_summary = s, response_source_url = url\<rparr>,
                 c', [Fetch q])
              \<and> cache c' = cache c
              \<and> (if truthy (fst (cache_get_article st md5 c q (now_get_article w)))
                  then c' = c
                  else article_cache c' =
                         (article_cache c)(key \<mapsto> (atext, now_set_article_on_hit w)))))
   \<and> (\<forall>r1 c1 evs1 w2 atext2 url2.
        cache_enabled st
        \<and> summarize_wikipedia st tk md5 w c rq = (Inr r1, c1, evs1)
        \<and> (\<forall>v ts. cache c1 key = Some (v, ts) \<longrightarrow> now_get w2 - ts < real_of_int (ttl c1))
        \<and> fetch_on_hit w2 q = Some (atext2, url2) \<and> url2 \<noteq> [] \<longrightarrow>
        (\<exists>c2. summarize_wikipedia st tk md5 w2 c1 rq =
                (Inr \<lparr>response_query = q, response_summary = response_summary r1,
                      response_source_url = url2\<rparr>,
                 c2, [Fetch q])))"
proof -
  define q where "q = strip rq"
  define key where "key = generate_key md5 q"
  have hit: "\<exists>c'. summarize_wikipedia st tk' md5 w' c0 rq =
                (Inr \<lparr>response_query = q, response_summary = s, response_source_url = url\<rparr>,
                 c', [Fetch q])
              \<and> cache c' = cache c0
              \<and> (if truthy (fst (cache_get_article st md5 c0 q (now_get_article w')))
                  then c' = c0
                  else article_cache c' =
                         (article_cache c0)(key \<mapsto> (atext, now_set_article_on_hit w')))"
    if h: "fst (cache_get st md5 c0 q (now_get w')) = Some s" "s \<noteq> []"
      "fetch_on_hit w' q = Some (atext, url)" "url \<noteq> []"
    for s atext url w' c0 tk'
  proof -
    have en: "cache_enabled st"
      using h(1) by (rule cache_get_hit(2))
    show ?thesis
      using summarize_hit_url [OF h [unfolded q_def], of tk', folded q_def]
        article_cache_after_hit [OF en, of md5 c0 q "now_get_article w'" atext
          "now_set_article_on_hit w'", folded key_def]
      by (auto simp: article_ops_keep_summaries)
  qed
  have again: "\<exists>c2. summarize_wikipedia st tk md5 w2 c1 rq =
                (Inr \<lparr>response_query = q, response_summary = response_summary r1,
                      response_source_url = url2\<rparr>,
                 c2, [Fetch q])"
    if en: "cache_enabled st"
      and run: "summarize_wikipedia st tk md5 w c rq = (Inr r1, c1, evs1)"
      and live: "\<forall>v ts. cache c1 key = Some (v, ts) \<longrightarrow> now_get w2 - ts < real_of_int (ttl c1)"
      and url: "fetch_on_hit w2 q = Some (atext2, url2)" "url2 \<noteq> []"
    for r1 c1 evs1 w2 atext2 url2
  proof -
    from summary_cached_after_success [OF en run]
    obtain ts where stored: "cache c1 key = Some (response_summary r1, ts)"
      and ne: "response_summary r1 \<noteq> []"
      by (auto simp: key_def q_def)
    with live have "now_get w2 - ts < real_of_int (ttl c1)" by blast
    with stored en have "fst (cache_get st md5 c1 q (now_get w2)) = Some (response_summary r1)"
      by (simp add: cache_get_def key_def)
    from hit [OF this ne url] show ?thesis by blast
  qed
  show ?thesis
    unfolding Let_def q_def [symmetric] key_def [symmetric]
    using hit again by blast
qed

lemma first_request:
  "summarize_wikipedia settings0 tiktoken_chars (\<lambda>s. s) world0 cache_empty ''Python '' =
      (Inr \<lparr>response_query = ''Python'', response_summary = ''A language.'',
            response_source_url = ''https://en.wikipedia.org/wiki/Python''\<rparr>,
       cache1,
       [Fetch ''Python'', Generate (summarize_prompt 300 ''Python is a language.'')])"
  by (simp add: summarize_wikipedia_def summarize_fetch_path_def summarize_article_def
        log_event_def cache_get_def cache_set_def cache_set_article_def Let_def
        strip_facts world0_facts truncate_chars key_Python' settings0_facts cache_empty_def
        cache1_def)
     (simp add: world0_def)

lemma world_later_facts:
  "now_get world_later = 2000" "now_get_article world_later = 1001"
  "fetch_on_hit world_later q = Some (''Python is a language.'',
      ''https://en.wikipedia.org/wiki/Python_(programming_language)'')"
  by (simp_all add: world_later_def world0_def)

lemma hit_cache0:
  "now_get w = 1000 \<Longrightarrow>
   fst (cache_get settings0 (\<lambda>s. s) cache0 (strip ''Python '') (now_get w)) = Some ''A language.''"
  by (simp add: cache_get_def settings0_facts strip_facts key_Python' cache0_def Let_def)

text \<open>
  The first request on the empty cache, then a second one at 2000, for which the fetch
  resolves another URL: same summary, one fetch, no call to the model.
\<close>

theorem summarize_cache_hit_witness:
  "summarize_wikipedia settings0 tiktoken_chars (\<lambda>s. s) world0 cache_empty ''Python '' =
      (Inr \<lparr>response_query = ''Python'', response_summary = ''A language.'',
            response_source_url = ''https://en.wikipedia.org/wiki/Python''\<rparr>,
       cache1,
       [Fetch ''Python'', Generate (summarize_prompt 300 ''Python is a language.'')])
   \<and> summarize_wikipedia settings0 tiktoken_chars (\<lambda>s. s) world_later cache1 ''Python '' =
      (Inr \<lparr>response_query = ''Python'', response_summary = ''A language.'',
            response_source_url =
              ''https://en.wikipedia.org/wiki/Python_(programming_language)''\<rparr>,
       cache1, [Fetch ''Python''])"
proof -
  note inst = summarize_cache_hit [of "''Python ''" "\<lambda>s. s" settings0 _ _ tiktoken_chars, unfolded Let_def strip_facts key_Python']
  have url: "fetch_on_hit world_later ''Python'' = Some (''Python is a language.'',
      ''https://en.wikipedia.org/wiki/Python_(programming_language)'')
      \<and> ''https://en.wikipedia.org/wiki/Python_(programming_language)'' \<noteq> []"
    by (simp add: world_later_facts)
  \<comment> \<open>the second part, from the first request to the second\<close>
  have live: "\<forall>v ts. cache cache1 ''python'' = Some (v, ts) \<longrightarrow>
                now_get world_later - ts < real_of_int (ttl cache1)"
    by (simp add: cache1_def world_later_facts)
  from inst [where c = cache_empty and w = world0, THEN conjunct2]
    settings0_facts(1) first_request live url
  have again: "\<exists>c2. summarize_wikipedia settings0 tiktoken_chars (\<lambda>s. s) world_later cache1
        ''Python '' =
      (Inr \<lparr>response_query = ''Python'', response_summary = ''A language.'',
            response_source_url =
              ''https://en.wikipedia.org/wiki/Python_(programming_language)''\<rparr>,
       c2, [Fetch ''Python''])"
    by fastforce
  \<comment> \<open>the first part, on the second request: the article cache is warm\<close>
  have hit: "fst (cache_get settings0 (\<lambda>s. s) cache1 ''Python'' (now_get world_later))
               = Some ''A language.'' \<and> ''A language.'' \<noteq> []"
    by (simp add: cache_get_def settings0_facts key_Python' cache1_def world_later_facts Let_def)
  have warm: "truthy (fst (cache_get_article settings0 (\<lambda>s. s) cache1 ''Python''
                (now_get_article world_later)))"
    by (simp add: cache_get_article_def settings0_facts key_Python' cache1_def
          world_later_facts truthy_def Let_def)
  from inst [where c = cache1 and w = world_later, THEN conjunct1] hit url warm
  have "\<exists>c'. summarize_wikipedia settings0 tiktoken_chars (\<lambda>s. s) world_later cache1
        ''Python '' =
      (Inr \<lparr>response_query = ''Python'', response_summary = ''A language.'',
            response_source_url =
              ''https://en.wikipedia.org/wiki/Python_(programming_language)''\<rparr>,
       c', [Fetch ''Python'']) \<and> c' = cache1"
    by fastforce
  with again first_request show ?thesis by simp
qed

text \<open>
  Without a resolved URL the claim fails: the summary \<open>"A language."\<close> is cached and
  alive, the fetch after the hit resolves nothing, the second fetch succeeds, the model is
  asked and its answer, not the cached summary, is returned.
\<close>

theorem cache_hit_without_url_calls_llm:
  "fst (cache_get settings0 (\<lambda>s. s) cache0 (strip ''Python '') (now_get world_no_url))
     = Some ''A language.''
   \<and> fst (summarize_wikipedia settings0 tiktoken_chars (\<lambda>s. s) world_no_url cache0 ''Python '')
     = Inr \<lparr>response_query = ''Python'', response_summary = ''Another summary.'',
            response_source_url = ''https://en.wikipedia.org/wiki/Python''\<rparr>
   \<and> snd (snd (summarize_wikipedia settings0 tiktoken_chars (\<lambda>s. s) world_no_url cache0
                 ''Python ''))
     = [Fetch ''Python'', Fetch ''Python'',
        Generate (summarize_prompt 300 ''Python is a language.'')]"
proof -
  have w: "now_get world_no_url = 1000" "fetch_on_hit world_no_url q = None"
    "fetch_on_miss world_no_url q
       = Some (''Python is a language.'', ''https://en.wikipedia.org/wiki/Python'')"
    "chat_completion world_no_url p = Some ''Another summary.''"
    "openai_client world_no_url ''sk-test'' = None" for q p
    by (simp_all add: world_no_url_def world0_def)
  have c: "cache cache0 ''python'' = Some (''A language.'', 100)" "ttl cache0 = 3600"
    by (simp_all add: cache0_def)
  show ?thesis
    by (simp add: summarize_wikipedia_def summarize_fetch_path_def summarize_article_def
        log_event_def cache_get_def cache_set_def cache_set_article_def Let_def
        strip_facts w c truncate_chars key_Python' settings0_facts)
qed

text \<open>
  Claim C10. On a hit of the summary cache for which the fetch resolves no URL, the
  handler does not answer from the cache: it continues with the main path, which fetches
  the same query a second time. If that fetch gives no text or no URL the request fails
  with \<open>ArticleNotFoundError\<close>, after two fetches, with the cache unchanged and the summary
  still cached and alive.
\<close>

theorem summarize_hit_without_url:
  assumes "fst (cache_get st md5 c (strip rq) (now_get w)) = Some s" and "s \<noteq> []"
    and "fetch_on_hit w (strip rq) = None \<or> (\<exists>t. fetch_on_hit w (strip rq) = Some (t, []))"
  shows "summarize_wikipedia st tk md5 w c rq =
           log_event (Fetch (strip rq)) (summarize_fetch_path st tk md5 w c (strip rq))
       \<and> (\<exists>r c' evs. summarize_wikipedia st tk md5 w c rq
                        = (r, c', Fetch (strip rq) # Fetch (strip rq) # evs))
       \<and> (fetch_on_miss w (strip rq) = None
            \<or> (\<exists>t u. fetch_on_miss w (strip rq) = Some (t, u) \<and> (t = [] \<or> u = [])) \<longrightarrow>
           summarize_wikipedia st tk md5 w c rq =
             (Inl (ArticleNotFoundError (strip rq)), c, [Fetch (strip rq), Fetch (strip rq)])
           \<and> fst (cache_get st md5 c (strip rq) (now_get w)) = Some s)"
proof -
  have fall: "summarize_wikipedia st tk md5 w c rq =
           log_event (Fetch (strip rq)) (summarize_fetch_path st tk md5 w c (strip rq))"
    using assms by (rule summarize_hit_no_url)
  moreover have "\<exists>r c' evs. summarize_wikipedia st tk md5 w c rq
                        = (r, c', Fetch (strip rq) # Fetch (strip rq) # evs)"
    using fetch_path_events [of st tk md5 w c "strip rq"]
    by (auto simp: fall log_event_def)
  moreover have "summarize_wikipedia st tk md5 w c rq =
             (Inl (ArticleNotFoundError (strip rq)), c, [Fetch (strip rq), Fetch (strip rq)])"
    if "fetch_on_miss w (strip rq) = None
            \<or> (\<exists>t u. fetch_on_miss w (strip rq) = Some (t, u) \<and> (t = [] \<or> u = []))"
    using fetch_path_not_found [OF that] by (simp add: fall log_event_def)
  ultimately show ?thesis using assms(1) by blast
qed

text \<open>
  Wikipedia unreachable while \<open>"A language."\<close> is cached for the query.
\<close>

theorem summarize_hit_without_url_witness:
  "fst (cache_get settings0 (\<lambda>s. s) cache0 (strip ''Python '') (now_get world_down))
     = Some ''A language.''
   \<and> summarize_wikipedia settings0 tiktoken_chars (\<lambda>s. s) world_down cache0 ''Python '' =
       (Inl (ArticleNotFoundError ''Python''), cache0, [Fetch ''Python'', Fetch ''Python''])"
proof -
  have w: "now_get world_down = 1000" "fetch_on_hit world_down q = None"
    "fetch_on_miss world_down q = None" for q
    by (simp_all add: world_down_def world0_def)
  have hit: "fst (cache_get settings0 (\<lambda>s. s) cache0 (strip ''Python '') (now_get world_down))
     = Some ''A language.''"
    using w(1) by (rule hit_cache0)
  have ne: "''A language.'' \<noteq> []" by simp
  have nourl: "fetch_on_hit world_down (strip ''Python '') = None
      \<or> (\<exists>t. fetch_on_hit world_down (strip ''Python '') = Some (t, []))"
    by (simp add: w)
  have gone: "fetch_on_miss world_down (strip ''Python '') = None
      \<or> (\<exists>t u. fetch_on_miss world_down (strip ''Python '') = Some (t, u)
                 \<and> (t = [] \<or> u = []))"
    by (simp add: w)
  from summarize_hit_without_url [OF hit ne nourl, of tiktoken_chars] gone
  have "summarize_wikipedia settings0 tiktoken_chars (\<lambda>s. s) world_down cache0 ''Python '' =
       (Inl (ArticleNotFoundError (strip ''Python '')), cache0,
        [Fetch (strip ''Python ''), Fetch (strip ''Python '')])"
    by blast
  then show ?thesis using hit by (simp add: strip_facts)
qed

end
